theory Spec2Isabelle
  imports Complex_Main
begin

section \<open>Recipe ingestion scripts: a shallow embedding\<close>

text \<open>
  The three scripts modelled here are \<^verbatim>\<open>scripts/ingest-serious-eats-top50.py\<close> (the
  structured pipeline, names suffixed \<open>_se\<close>), \<^verbatim>\<open>scripts/ingest-lidia-bastianich.py\<close>
  (the heuristic pipeline, names suffixed \<open>_lidia\<close>) and
  \<^verbatim>\<open>scripts/extract-foodandwine-chef-urls.py\<close> (listing-page discovery).

  The outside world is a script of answers: the \<open>n\<close>-th outbound request of a run is
  answered by \<open>respond n\<close>. Everything a function does besides returning a value
  (issuing a request, sleeping, growing the call stack) is recorded in an explicit state
  that is passed through. Log lines are not part of the state.
\<close>

subsection \<open>Python string operations\<close>

text \<open>\<^verbatim>\<open>s.startswith(p)\<close>.\<close>

fun startswith :: "string \<Rightarrow> string \<Rightarrow> bool" where
  "startswith s [] = True"
| "startswith [] (p # ps) = False"
| "startswith (c # cs) (p # ps) = (c = p \<and> startswith cs ps)"

text \<open>\<^verbatim>\<open>p in s\<close> for strings: \<open>p\<close> occurs in \<open>s\<close> as a contiguous run.\<close>

fun py_in :: "string \<Rightarrow> string \<Rightarrow> bool" where
  "py_in p [] = (p = [])"
| "py_in p (c # cs) = (startswith (c # cs) p \<or> py_in p cs)"

text \<open>
  \<^verbatim>\<open>s.lower()\<close> on the ASCII letters; every other character is left as it is.
\<close>

definition lower_char :: "char \<Rightarrow> char" where
  "lower_char c =
     (let n = (of_char c :: nat)
      in if 65 \<le> n \<and> n \<le> 90 then char_of (n + 32) else c)"

definition lower :: "string \<Rightarrow> string" where
  "lower s = map lower_char s"

text \<open>
  \<^verbatim>\<open>c.isspace()\<close> on single-byte characters: tab, line feed, vertical tab, form feed,
  carriage return, the four separators \<open>0x1c..0x1f\<close>, space, \<open>0x85\<close> and \<open>0xa0\<close>.
\<close>

definition isspace :: "char \<Rightarrow> bool" where
  "isspace c =
     (let n = (of_char c :: nat)
      in (9 \<le> n \<and> n \<le> 13) \<or> (28 \<le> n \<and> n \<le> 32) \<or> n = 133 \<or> n = 160)"

text \<open>\<^verbatim>\<open>s.strip()\<close>: whitespace is removed from both ends.\<close>

definition strip :: "string \<Rightarrow> string" where
  "strip s = rev (dropWhile isspace (rev (dropWhile isspace s)))"

text \<open>\<^verbatim>\<open>sep.join(parts)\<close>.\<close>

fun join :: "string \<Rightarrow> string list \<Rightarrow> string" where
  "join sep [] = []"
| "join sep [x] = x"
| "join sep (x # y # ys) = x @ sep @ join sep (y # ys)"

text \<open>
  \<^verbatim>\<open>list(dict.fromkeys(xs))\<close> and the \<^verbatim>\<open>if x not in seen: append\<close> loops: the first
  occurrence of every element is kept, in order.
\<close>

fun dedup_acc :: "'a list \<Rightarrow> 'a list \<Rightarrow> 'a list" where
  "dedup_acc acc [] = acc"
| "dedup_acc acc (x # xs) = dedup_acc (if x \<in> set acc then acc else acc @ [x]) xs"

definition dedup :: "'a list \<Rightarrow> 'a list" where
  "dedup xs = dedup_acc [] xs"

subsection \<open>Effects: requests, sleeps and stack frames\<close>

type_synonym url = string

datatype event =
  Request url        \<comment> \<open>an outbound fetch (\<^verbatim>\<open>requests.get\<close> or \<^verbatim>\<open>scrape_me\<close>)\<close>
| BackoffWait nat    \<comment> \<open>\<^verbatim>\<open>time.sleep(wait_time)\<close> of the retry logic\<close>
| RateLimitWait nat  \<comment> \<open>\<^verbatim>\<open>time.sleep(RATE_LIMIT_SECONDS)\<close> and \<^verbatim>\<open>time.sleep(2)\<close> between requests\<close>

record state =
  requests :: nat        \<comment> \<open>requests issued so far; the next one is answered by \<open>respond (requests s)\<close>\<close>
  events :: "event list" \<comment> \<open>what has happened so far, oldest first\<close>
  depth :: nat           \<comment> \<open>activations of \<^verbatim>\<open>scrape_recipe\<close> now on the call stack\<close>
  peak :: nat            \<comment> \<open>the largest \<open>depth\<close> reached\<close>

definition initial :: state where
  "initial = \<lparr>requests = 0, events = [], depth = 0, peak = 0\<rparr>"

definition request :: "url \<Rightarrow> state \<Rightarrow> state" where
  "request u s = s\<lparr>requests := requests s + 1, events := events s @ [Request u]\<rparr>"

definition backoff_sleep :: "nat \<Rightarrow> state \<Rightarrow> state" where
  "backoff_sleep n s = s\<lparr>events := events s @ [BackoffWait n]\<rparr>"

definition rate_limit_sleep :: "nat \<Rightarrow> state \<Rightarrow> state" where
  "rate_limit_sleep n s = s\<lparr>events := events s @ [RateLimitWait n]\<rparr>"

definition enter :: "state \<Rightarrow> state" where
  "enter s = s\<lparr>depth := depth s + 1, peak := max (peak s) (depth s + 1)\<rparr>"

definition leave :: "state \<Rightarrow> state" where
  "leave s = s\<lparr>depth := depth s - 1\<rparr>"

text \<open>A caught exception: \<^verbatim>\<open>type(e).__name__\<close> and \<^verbatim>\<open>str(e)\<close>.\<close>

record exn =
  error_type :: string
  error_msg :: string

datatype 'a outcome = Returns 'a | Raises exn

definition MAX_RETRIES :: nat where "MAX_RETRIES = 3"
definition RETRY_BACKOFF :: nat where "RETRY_BACKOFF = 2"

subsection \<open>Structured pipeline: \<^verbatim>\<open>scrape_recipe\<close>\<close>

text \<open>
  What the external extractor hands back for a page. A field the scraper object does not
  have (\<^verbatim>\<open>hasattr\<close> false) and a field it returns as \<^verbatim>\<open>None\<close> are both \<open>None\<close>.
  An exception raised by \<^verbatim>\<open>scrape_me\<close> or by any accessor is the outcome \<open>Raises\<close>.
\<close>

record scraper =
  sc_title :: string
  sc_author :: "string option"
  sc_description :: "string option"
  sc_prep_time :: "nat option"
  sc_cook_time :: "nat option"
  sc_total_time :: "nat option"
  sc_yields :: "string option"
  sc_ingredients :: "string list"
  sc_instructions :: string
  sc_image :: "string option"
  sc_cuisine :: "string option"
  sc_category :: "string option"
  sc_ratings :: "string option"

record metadata =
  md_author :: "string option"
  md_category :: "string option"
  md_notes :: "string option"

text \<open>
  The raw record of the structured pipeline. \<^verbatim>\<open>scraped_at\<close> is a wall-clock reading that
  nothing downstream inspects; it is left out, as are the other timestamps below.
\<close>

record raw_se =
  rs_url :: url
  rs_metadata :: metadata
  rs_title :: string
  rs_author :: "string option"
  rs_description :: "string option"
  rs_prep_time :: "nat option"
  rs_cook_time :: "nat option"
  rs_total_time :: "nat option"
  rs_yields :: "string option"
  rs_ingredients :: "string list"
  rs_instructions :: string
  rs_image :: "string option"
  rs_cuisine :: "string option"
  rs_category :: "string option"
  rs_ratings :: "string option"

definition raw_data_se :: "url \<Rightarrow> metadata \<Rightarrow> scraper \<Rightarrow> raw_se" where
  "raw_data_se u md sc =
     \<lparr>rs_url = u, rs_metadata = md, rs_title = sc_title sc, rs_author = sc_author sc,
      rs_description = sc_description sc, rs_prep_time = sc_prep_time sc,
      rs_cook_time = sc_cook_time sc, rs_total_time = sc_total_time sc,
      rs_yields = sc_yields sc, rs_ingredients = sc_ingredients sc,
      rs_instructions = sc_instructions sc, rs_image = sc_image sc,
      rs_cuisine = sc_cuisine sc, rs_category = sc_category sc, rs_ratings = sc_ratings sc\<rparr>"

text \<open>
  \<^verbatim>\<open>scrape_recipe(url, metadata, attempt)\<close>. The \<^verbatim>\<open>except\<close> branch first tests the
  message for \<^verbatim>\<open>"404"\<close> or \<^verbatim>\<open>"Not Found"\<close>, then retries by calling itself after
  \<^verbatim>\<open>time.sleep(RETRY_BACKOFF ** attempt)\<close> while \<^verbatim>\<open>attempt < MAX_RETRIES\<close>. The
  recursive call is not a tail call in Python: the caller's frame stays on the stack until
  the callee returns, which \<open>enter\<close> and \<open>leave\<close> account for.
\<close>

function scrape_recipe_se ::
  "(nat \<Rightarrow> scraper outcome) \<Rightarrow> url \<Rightarrow> metadata \<Rightarrow> nat \<Rightarrow> state \<Rightarrow> raw_se option \<times> state"
where
  "scrape_recipe_se respond u md attempt s =
     (let s1 = request u (enter s) in
      case respond (requests s) of
        Returns sc \<Rightarrow> (Some (raw_data_se u md sc), leave s1)
      | Raises e \<Rightarrow>
          if py_in ''404'' (error_msg e) \<or> py_in ''Not Found'' (error_msg e)
          then (None, leave s1)
          else if attempt < MAX_RETRIES
          then (let s2 = backoff_sleep (RETRY_BACKOFF ^ attempt) s1;
                    r = scrape_recipe_se respond u md (attempt + 1) s2
                in (fst r, leave (snd r)))
          else (None, leave s1))"
  by pat_completeness auto
termination
  by (relation "measure (\<lambda>(respond, u, md, attempt, s). MAX_RETRIES - attempt)") auto

declare scrape_recipe_se.simps [simp del]

subsection \<open>Heuristic pipeline: \<^verbatim>\<open>fetch_recipe_urls\<close> and \<^verbatim>\<open>scrape_recipe\<close>\<close>

text \<open>
  What the HTML parser finds in a fetched page, one field per query the script makes:
  the \<^verbatim>\<open>href\<close> of every \<^verbatim>\<open><a href=...>\<close>; the text of the first \<^verbatim>\<open>h1\<close>; the text of the
  first \<^verbatim>\<open>h3\<close> matching \<^verbatim>\<open>Serves\<close>; the \<^verbatim>\<open>li\<close> texts of the first list after the
  \<^verbatim>\<open>Ingredients\<close> heading; the \<^verbatim>\<open>p\<close> texts of the \<^verbatim>\<open>div.recipe-text\<close> after the
  \<^verbatim>\<open>Directions\<close> heading; the text of the block after the \<^verbatim>\<open>Notes\<close> heading; and the
  \<^verbatim>\<open>src\<close> and \<^verbatim>\<open>data-src\<close> attributes of every \<^verbatim>\<open>img\<close>. \<open>None\<close> means the query found
  nothing.
\<close>

record page =
  pg_hrefs :: "string list"
  pg_h1 :: "string option"
  pg_serves_h3 :: "string option"
  pg_ingredient_items :: "string list option"
  pg_recipe_text_paragraphs :: "string list option"
  pg_notes :: "string option"
  pg_imgs :: "(string option \<times> string option) list"

record response =
  status_code :: nat
  content :: page




definition skip_patterns :: "string list" where
  "skip_patterns =
     [''facebook'', ''twitter'', ''pinterest'', ''email'', ''copyright'', ''excerpted from'',
      ''all rights reserved'']"

text \<open>
  The paragraph loop of \<^verbatim>\<open>scrape_recipe\<close>: \<^verbatim>\<open>text = p.text.strip()\<close> is appended when
  \<^verbatim>\<open>text and not any(pattern in text.lower() ...) and len(text) > 20\<close>.
\<close>

fun instruction_parts :: "string list \<Rightarrow> string list \<Rightarrow> string list" where
  "instruction_parts acc [] = acc"
| "instruction_parts acc (p # ps) =
     (let text = strip p in
      instruction_parts
        (if text \<noteq> [] \<and> \<not> list_ex (\<lambda>pattern. py_in pattern (lower text)) skip_patterns
            \<and> length text > 20
         then acc @ [text] else acc) ps)"

definition instructions_text :: "string list option \<Rightarrow> string" where
  "instructions_text paragraphs =
     (case paragraphs of
        None \<Rightarrow> []
      | Some ps \<Rightarrow> join ''\<newline>\<newline>'' (instruction_parts [] ps))"

text \<open>\<^verbatim>\<open>img.get('src') or img.get('data-src', '')\<close>.\<close>

definition img_src :: "string option \<times> string option \<Rightarrow> string" where
  "img_src img =
     (case fst img of
        Some src \<Rightarrow> if src \<noteq> [] then src else (case snd img of Some d \<Rightarrow> d | None \<Rightarrow> [])
      | None \<Rightarrow> (case snd img of Some d \<Rightarrow> d | None \<Rightarrow> []))"

fun image_urls :: "string list \<Rightarrow> (string option \<times> string option) list \<Rightarrow> string list" where
  "image_urls acc [] = acc"
| "image_urls acc (img # imgs) =
     (let src = img_src img in
      image_urls
        (if src \<noteq> [] \<and> list_ex (\<lambda>word. py_in word (lower src)) [''upload'', ''wp-content/uploads'']
            \<and> \<not> list_ex (\<lambda>word. py_in word (lower src)) [''logo'', ''icon'', ''button'']
            \<and> src \<notin> set acc
         then acc @ [src] else acc) imgs)"

record raw_lidia =
  rl_url :: url
  rl_title :: string
  rl_author :: string
  rl_description :: "string option"
  rl_servings_text :: "string option"
  rl_ingredients :: "string list"
  rl_instructions :: string
  rl_notes :: "string option"
  rl_images :: "string list"
  rl_cuisine :: string

text \<open>
  The body of the \<^verbatim>\<open>try\<close> block after a response with status 200: \<open>None\<close> when the
  page has no title.
\<close>

definition extract_lidia :: "url \<Rightarrow> page \<Rightarrow> raw_lidia option" where
  "extract_lidia u pg =
     (let title = (case pg_h1 pg of Some t \<Rightarrow> strip t | None \<Rightarrow> []) in
      if title = [] then None
      else
        (let servings_text = map_option strip (pg_serves_h3 pg);
             ingredients =
               (case pg_ingredient_items pg of
                  None \<Rightarrow> []
                | Some lis \<Rightarrow> filter (\<lambda>t. t \<noteq> []) (map strip lis));
             notes = map_option strip (pg_notes pg)
         in Some \<lparr>rl_url = u, rl_title = title, rl_author = ''Lidia Bastianich'',
                   rl_description = notes, rl_servings_text = servings_text,
                   rl_ingredients = ingredients,
                   rl_instructions = instructions_text (pg_recipe_text_paragraphs pg),
                   rl_notes = notes, rl_images = image_urls [] (pg_imgs pg),
                   rl_cuisine = ''Italian''\<rparr>))"

text \<open>
  \<^verbatim>\<open>scrape_recipe(url, attempt)\<close>. A response whose status is not 200 returns \<^verbatim>\<open>None\<close>
  from inside the \<^verbatim>\<open>try\<close> block; only an exception reaches the retry branch.
\<close>

function scrape_recipe_lidia ::
  "(nat \<Rightarrow> response outcome) \<Rightarrow> url \<Rightarrow> nat \<Rightarrow> state \<Rightarrow> raw_lidia option \<times> state"
where
  "scrape_recipe_lidia respond u attempt s =
     (let s1 = request u (enter s) in
      case respond (requests s) of
        Returns resp \<Rightarrow>
          if status_code resp \<noteq> 200 then (None, leave s1)
          else (extract_lidia u (content resp), leave s1)
      | Raises e \<Rightarrow>
          if attempt < MAX_RETRIES
          then (let s2 = backoff_sleep (RETRY_BACKOFF ^ attempt) s1;
                    r = scrape_recipe_lidia respond u (attempt + 1) s2
                in (fst r, leave (snd r)))
          else (None, leave s1))"
  by pat_completeness auto
termination
  by (relation "measure (\<lambda>(respond, u, attempt, s). MAX_RETRIES - attempt)") auto

declare scrape_recipe_lidia.simps [simp del]

subsection \<open>Normalisation: \<^verbatim>\<open>parse_servings\<close>, \<^verbatim>\<open>parse_instructions\<close>, \<^verbatim>\<open>transform_to_schema\<close>\<close>

text \<open>
  A text field holding JSON. \<^verbatim>\<open>json.dumps\<close> of a list of strings gives \<open>Dumped\<close> of that
  list and \<^verbatim>\<open>json.loads\<close> gives the list back; \<open>Malformed\<close> is a text on which
  \<^verbatim>\<open>json.loads\<close> raises \<^verbatim>\<open>JSONDecodeError\<close>.
\<close>

datatype json_text = Dumped "string list" | Malformed

definition json_dumps :: "string list \<Rightarrow> json_text" where
  "json_dumps xs = Dumped xs"

definition json_loads :: "json_text \<Rightarrow> string list option" where
  "json_loads t = (case t of Dumped xs \<Rightarrow> Some xs | Malformed \<Rightarrow> None)"






text \<open>
  The database-ready record. Of the keys of the transformed dictionary, those that hold a
  constant in both scripts (\<^verbatim>\<open>chef_id\<close>, \<^verbatim>\<open>difficulty\<close>, \<^verbatim>\<open>image_url\<close>, the flags
  and the unset enhanced fields), the timestamps and the \<^verbatim>\<open>_metadata\<close> block are not
  carried. \<open>rc_validation_issues\<close> is the key \<^verbatim>\<open>_validation_issues\<close>: \<open>None\<close> while the
  key is absent.
\<close>

record recipe =
  rc_id :: string
  rc_user_id :: string
  rc_name :: string
  rc_description :: "string option"
  rc_ingredients :: json_text
  rc_instructions :: string
  rc_prep_time :: "nat option"
  rc_cook_time :: "nat option"
  rc_servings :: "nat option"
  rc_cuisine :: "string option"
  rc_tags :: json_text
  rc_images :: json_text
  rc_source :: string
  rc_validation_issues :: "string list option"



subsection \<open>Validation: \<^verbatim>\<open>validate_recipe\<close>\<close>

text \<open>\<^verbatim>\<open>str(n)\<close> for a natural number.\<close>

fun str_nat :: "nat \<Rightarrow> string" where
  "str_nat n =
     (if n < 10 then [char_of (48 + n)] else str_nat (n div 10) @ [char_of (48 + n mod 10)])"

declare str_nat.simps [simp del]


text \<open>The validator of the heuristic pipeline.\<close>

definition validate_recipe_lidia :: "recipe \<Rightarrow> bool \<times> string list" where
  "validate_recipe_lidia r =
     (let issues0 = (if rc_name r = [] then [''Missing name''] else []);
          issues1 =
            (case json_loads (rc_ingredients r) of
               Some ingredients \<Rightarrow>
                 if ingredients = [] \<or> length ingredients = 0
                 then issues0 @ [''No ingredients'']
                 else if length ingredients < 3
                 then issues0 @ [''Too few ingredients ('' @ str_nat (length ingredients) @ '')'']
                 else issues0
             | None \<Rightarrow> issues0 @ [''Invalid ingredients JSON'']);
          issues2 =
            (if rc_instructions r = [] then issues1 @ [''No instructions'']
             else if length (rc_instructions r) < 50
             then issues1 @ [''Instructions too short'']
             else issues1);
          issues3 = (if rc_source r = [] then issues2 @ [''Missing source URL''] else issues2)
      in (length issues3 = 0, issues3))"

subsection \<open>Orchestration: the \<^verbatim>\<open>main\<close> functions\<close>














subsection \<open>Listing-page discovery: \<^verbatim>\<open>extract_recipe_urls\<close>\<close>

text \<open>
  An \<^verbatim>\<open><a>\<close> element as the parser presents it: the \<^verbatim>\<open>href\<close> attribute if there is one,
  the values of \<^verbatim>\<open>rel\<close>, the element's \<^verbatim>\<open>.string\<close>, and the values of \<^verbatim>\<open>class\<close>.
\<close>

record anchor =
  a_href :: "string option"
  a_rel :: "string list"
  a_string :: "string option"
  a_class :: "string list"

text \<open>
  The link loop over \<^verbatim>\<open>soup.find_all('a', href=True)\<close>; \<open>urljoin\<close> is the library
  function of that name.
\<close>

fun page_links ::
  "(string \<Rightarrow> string \<Rightarrow> string) \<Rightarrow> url \<Rightarrow> string list \<Rightarrow> anchor list \<Rightarrow> string list" where
  "page_links urljoin chef_url acc [] = acc"
| "page_links urljoin chef_url acc (link # links) =
     (case a_href link of
        None \<Rightarrow> page_links urljoin chef_url acc links
      | Some href \<Rightarrow>
          (let absolute_url = urljoin chef_url href in
           if py_in ''/recipes/'' absolute_url \<and> py_in ''foodandwine.com'' absolute_url
           then (if \<not> py_in ''/gallery/'' absolute_url \<and> \<not> py_in ''/collection/'' absolute_url
                 then page_links urljoin chef_url (acc @ [absolute_url]) links
                 else page_links urljoin chef_url acc links)
           else page_links urljoin chef_url acc links))"

text \<open>
  \<^verbatim>\<open>soup.find('a', {'rel': 'next'}) or soup.find('a', string='Next') or
  soup.find('a', class_=lambda c: c and 'next' in c.lower() if c else False)\<close>, as a truth
  value.
\<close>

definition next_page :: "anchor list \<Rightarrow> bool" where
  "next_page anchors =
     (list_ex (\<lambda>a. ''next'' \<in> set (a_rel a)) anchors
      \<or> list_ex (\<lambda>a. a_string a = Some ''Next'') anchors
      \<or> list_ex (\<lambda>a. list_ex (\<lambda>c. c \<noteq> [] \<and> py_in ''next'' (lower c)) (a_class a)) anchors)"

definition page_url :: "url \<Rightarrow> nat \<Rightarrow> url" where
  "page_url chef_url page_num =
     (if page_num = 1 then chef_url else chef_url @ ''?page='' @ str_nat page_num)"

text \<open>
  The \<^verbatim>\<open>while page_num <= max_pages\<close> loop. \<open>Raises\<close> is a
  \<^verbatim>\<open>requests.exceptions.RequestException\<close>, from the fetch or from \<^verbatim>\<open>raise_for_status\<close>.
\<close>

function extract_pages ::
  "(string \<Rightarrow> string \<Rightarrow> string) \<Rightarrow> (nat \<Rightarrow> anchor list outcome) \<Rightarrow> url \<Rightarrow> nat \<Rightarrow> nat \<Rightarrow>
   url list \<Rightarrow> state \<Rightarrow> url list \<times> state"
where
  "extract_pages urljoin respond chef_url max_pages page_num all_recipe_urls s =
     (if page_num \<le> max_pages
      then (let s1 = request (page_url chef_url page_num) s in
            case respond (requests s) of
              Raises e \<Rightarrow> (all_recipe_urls, s1)
            | Returns anchors \<Rightarrow>
                (let recipe_links = dedup (page_links urljoin chef_url [] anchors) in
                 if recipe_links \<noteq> []
                 then (let all_recipe_urls' = all_recipe_urls @ recipe_links in
                       if \<not> next_page anchors \<and> page_num = 1 then (all_recipe_urls', s1)
                       else if \<not> next_page anchors then (all_recipe_urls', s1)
                       else extract_pages urljoin respond chef_url max_pages (page_num + 1)
                              all_recipe_urls' (rate_limit_sleep 2 s1))
                 else (all_recipe_urls, s1)))
      else (all_recipe_urls, s))"
  by pat_completeness auto
termination
  by (relation "measure (\<lambda>(urljoin, respond, chef_url, max_pages, page_num, all_recipe_urls, s).
        max_pages + 1 - page_num)") auto

declare extract_pages.simps [simp del]

definition extract_recipe_urls ::
  "(string \<Rightarrow> string \<Rightarrow> string) \<Rightarrow> (nat \<Rightarrow> anchor list outcome) \<Rightarrow> url \<Rightarrow> nat \<Rightarrow> state \<Rightarrow>
   url list \<times> state" where
  "extract_recipe_urls urljoin respond chef_url max_pages s =
     (let r = extract_pages urljoin respond chef_url max_pages 1 [] s
      in (dedup (fst r), snd r))"

subsection \<open>Vocabulary of the properties and sample inputs\<close>

text \<open>The test in the \<^verbatim>\<open>except\<close> branch of the structured pipeline.\<close>

definition not_found_message :: "exn \<Rightarrow> bool" where
  "not_found_message e = (py_in ''404'' (error_msg e) \<or> py_in ''Not Found'' (error_msg e))"

definition timeout_error :: exn where
  "timeout_error = \<lparr>error_type = ''ConnectionError'', error_msg = ''Read timed out''\<rparr>"

definition http_404_error :: exn where
  "http_404_error = \<lparr>error_type = ''HTTPError'', error_msg = ''404 Client Error: Not Found''\<rparr>"

definition sample_scraper :: scraper where
  "sample_scraper =
     \<lparr>sc_title = ''Pasta'', sc_author = None, sc_description = None, sc_prep_time = None,
      sc_cook_time = None, sc_total_time = None, sc_yields = Some ''Serves 6 to 8'',
      sc_ingredients = [''flour'', ''eggs''], sc_instructions = ''Mix.  Roll.'',
      sc_image = None, sc_cuisine = None, sc_category = None, sc_ratings = None\<rparr>"

definition no_metadata :: metadata where
  "no_metadata = \<lparr>md_author = None, md_category = None, md_notes = None\<rparr>"

definition empty_page :: page where
  "empty_page =
     \<lparr>pg_hrefs = [], pg_h1 = None, pg_serves_h3 = None, pg_ingredient_items = None,
      pg_recipe_text_paragraphs = None, pg_notes = None, pg_imgs = []\<rparr>"

definition status_only :: "nat \<Rightarrow> response" where
  "status_only code = \<lparr>status_code = code, content = empty_page\<rparr>"

definition port_4040_timeout :: exn where
  "port_4040_timeout =
     \<lparr>error_type = ''ReadTimeout'',
      error_msg = ''HTTPSConnectionPool(host=seriouseats.com, port=4040): Read timed out.''\<rparr>"

definition server_error :: exn where
  "server_error = \<lparr>error_type = ''HTTPError'', error_msg = ''503 Server Error: Service Unavailable''\<rparr>"

text \<open>
  What one call of \<^verbatim>\<open>scrape_recipe\<close> does to the stack, from the state \<open>s\<close> it starts in to
  the state \<open>s'\<close> it returns in: the depth is restored, at least one request was made, and
  the peak rose to the starting depth plus the number of requests.
\<close>

definition frames_used :: "state \<Rightarrow> state \<Rightarrow> bool" where
  "frames_used s s' =
     (depth s' = depth s \<and> requests s < requests s' \<and>
      peak s' = max (peak s) (depth s + (requests s' - requests s)))"

text \<open>
  A paragraph text carries a boilerplate marker when one of \<open>skip_patterns\<close> occurs in its
  lower-cased form; it is kept when it is longer than 20 characters and carries none.
\<close>

definition has_boilerplate :: "string \<Rightarrow> bool" where
  "has_boilerplate text = list_ex (\<lambda>pattern. py_in pattern (lower text)) skip_patterns"

definition kept :: "string \<Rightarrow> bool" where
  "kept text = (length text > 20 \<and> \<not> has_boilerplate text)"

definition sample_paragraphs :: "string list" where
  "sample_paragraphs =
     [''  Bring a large pot of salted water to a boil.  '',
      ''Stir the sauce well.'',
      ''Share on Facebook and Pinterest today'',
      ''Drain the pasta and toss it with the sauce.'']"

definition short_recipe :: recipe where
  "short_recipe =
     \<lparr>rc_id = ''id-1'', rc_user_id = ''system'', rc_name = ''Pasta'', rc_description = None,
      rc_ingredients = json_dumps [], rc_instructions = ''Mix and bake.'',
      rc_prep_time = None, rc_cook_time = None, rc_servings = None, rc_cuisine = None,
      rc_tags = json_dumps [], rc_images = json_dumps [''https://example.com/a.jpg''],
      rc_source = ''https://example.com/pasta'', rc_validation_issues = None\<rparr>"




text \<open>
  The recipe links of a listing page, and the pages after which the walk goes on: those
  that return recipe links together with a next-page affordance.
\<close>

definition recipe_links_of :: "(string \<Rightarrow> string \<Rightarrow> string) \<Rightarrow> url \<Rightarrow> anchor list \<Rightarrow> url list" where
  "recipe_links_of urljoin chef_url anchors = dedup (page_links urljoin chef_url [] anchors)"

definition leads_on :: "(string \<Rightarrow> string \<Rightarrow> string) \<Rightarrow> url \<Rightarrow> anchor list outcome \<Rightarrow> bool" where
  "leads_on urljoin chef_url r =
     (case r of
        Returns anchors \<Rightarrow> recipe_links_of urljoin chef_url anchors \<noteq> [] \<and> next_page anchors
      | Raises e \<Rightarrow> False)"

definition chef_page :: url where
  "chef_page = ''https://www.foodandwine.com/chefs/nancy-silverton''"

definition recipe_anchor :: anchor where
  "recipe_anchor =
     \<lparr>a_href = Some ''https://www.foodandwine.com/recipes/pizza'', a_rel = [],
      a_string = Some ''Pizza'', a_class = [''card'']\<rparr>"

definition next_anchor :: anchor where
  "next_anchor =
     \<lparr>a_href = Some ''https://www.foodandwine.com/chefs/nancy-silverton?page=2'',
      a_rel = [''next''], a_string = Some ''Next'', a_class = [''pagination-Next'']\<rparr>"

text \<open>A stand-in for \<^verbatim>\<open>urljoin\<close> on pages whose links are already absolute.\<close>

definition absolute :: "string \<Rightarrow> string \<Rightarrow> string" where
  "absolute base href = href"






section \<open>Properties\<close>

subsection \<open>State bookkeeping\<close>

lemma request_simps [simp]:
  "requests (request u s) = requests s + 1"
  "events (request u s) = events s @ [Request u]"
  "depth (request u s) = depth s"
  "peak (request u s) = peak s"
  by (simp_all add: request_def)

lemma enter_simps [simp]:
  "requests (enter s) = requests s"
  "events (enter s) = events s"
  "depth (enter s) = depth s + 1"
  "peak (enter s) = max (peak s) (depth s + 1)"
  by (simp_all add: enter_def)

lemma leave_simps [simp]:
  "requests (leave s) = requests s"
  "events (leave s) = events s"
  "depth (leave s) = depth s - 1"
  "peak (leave s) = peak s"
  by (simp_all add: leave_def)

lemma backoff_sleep_simps [simp]:
  "requests (backoff_sleep n s) = requests s"
  "events (backoff_sleep n s) = events s @ [BackoffWait n]"
  "depth (backoff_sleep n s) = depth s"
  "peak (backoff_sleep n s) = peak s"
  by (simp_all add: backoff_sleep_def)

lemma rate_limit_sleep_simps [simp]:
  "requests (rate_limit_sleep n s) = requests s"
  "events (rate_limit_sleep n s) = events s @ [RateLimitWait n]"
  "depth (rate_limit_sleep n s) = depth s"
  "peak (rate_limit_sleep n s) = peak s"
  by (simp_all add: rate_limit_sleep_def)

subsection \<open>One call of \<^verbatim>\<open>scrape_recipe\<close>, case by case\<close>

lemma scrape_se_returns:
  "respond (requests s) = Returns sc \<Longrightarrow>
   scrape_recipe_se respond u md attempt s = (Some (raw_data_se u md sc), leave (request u (enter s)))"
  by (subst scrape_recipe_se.simps) (simp add: Let_def)

lemma scrape_se_not_found:
  "respond (requests s) = Raises e \<Longrightarrow> not_found_message e \<Longrightarrow>
   scrape_recipe_se respond u md attempt s = (None, leave (request u (enter s)))"
  by (subst scrape_recipe_se.simps) (simp add: Let_def not_found_message_def)

lemma scrape_se_retry:
  "respond (requests s) = Raises e \<Longrightarrow> \<not> not_found_message e \<Longrightarrow> attempt < MAX_RETRIES \<Longrightarrow>
   scrape_recipe_se respond u md attempt s =
     (let r = scrape_recipe_se respond u md (attempt + 1)
                (backoff_sleep (RETRY_BACKOFF ^ attempt) (request u (enter s)))
      in (fst r, leave (snd r)))"
  by (subst scrape_recipe_se.simps) (simp add: Let_def not_found_message_def)

lemma scrape_se_exhausted:
  "respond (requests s) = Raises e \<Longrightarrow> \<not> not_found_message e \<Longrightarrow> \<not> attempt < MAX_RETRIES \<Longrightarrow>
   scrape_recipe_se respond u md attempt s = (None, leave (request u (enter s)))"
  by (subst scrape_recipe_se.simps) (simp add: Let_def not_found_message_def)

lemma scrape_lidia_returns:
  "respond (requests s) = Returns resp \<Longrightarrow>
   scrape_recipe_lidia respond u attempt s =
     ((if status_code resp \<noteq> 200 then None else extract_lidia u (content resp)),
      leave (request u (enter s)))"
  by (subst scrape_recipe_lidia.simps) (simp add: Let_def)

lemma scrape_lidia_retry:
  "respond (requests s) = Raises e \<Longrightarrow> attempt < MAX_RETRIES \<Longrightarrow>
   scrape_recipe_lidia respond u attempt s =
     (let r = scrape_recipe_lidia respond u (attempt + 1)
                (backoff_sleep (RETRY_BACKOFF ^ attempt) (request u (enter s)))
      in (fst r, leave (snd r)))"
  by (subst scrape_recipe_lidia.simps) (simp add: Let_def)

lemma scrape_lidia_exhausted:
  "respond (requests s) = Raises e \<Longrightarrow> \<not> attempt < MAX_RETRIES \<Longrightarrow>
   scrape_recipe_lidia respond u attempt s = (None, leave (request u (enter s)))"
  by (subst scrape_recipe_lidia.simps) (simp add: Let_def)

lemma scrape_se_third_time:
  assumes "respond (requests s) = Raises e1" "\<not> not_found_message e1"
    and "respond (requests s + 1) = Raises e2" "\<not> not_found_message e2"
    and "respond (requests s + 2) = Returns sc"
  shows "scrape_recipe_se respond u md 1 s =
      (Some (raw_data_se u md sc),
       leave (leave (leave (request u (enter (backoff_sleep 4 (request u (enter
         (backoff_sleep 2 (request u (enter s)))))))))))"
  using assms
  by (simp add: scrape_recipe_se.simps not_found_message_def MAX_RETRIES_def RETRY_BACKOFF_def
      Let_def)

lemma scrape_lidia_third_time:
  assumes "respond (requests s) = Raises e1" "respond (requests s + 1) = Raises e2"
    and "respond (requests s + 2) = Returns resp" "status_code resp = 200"
  shows "scrape_recipe_lidia respond u 1 s =
      (extract_lidia u (content resp),
       leave (leave (leave (request u (enter (backoff_sleep 4 (request u (enter
         (backoff_sleep 2 (request u (enter s)))))))))))"
  using assms
  by (simp add: scrape_recipe_lidia.simps MAX_RETRIES_def RETRY_BACKOFF_def Let_def)

lemma not_found_message_samples:
  "\<not> not_found_message timeout_error" "not_found_message http_404_error"
  by (simp_all add: not_found_message_def timeout_error_def http_404_error_def)

subsection \<open>Backoff sequence\<close>

text \<open>
  Claim C1. With \<^verbatim>\<open>MAX_RETRIES = 3\<close> and \<^verbatim>\<open>RETRY_BACKOFF = 2\<close>, in both pipelines: when
  attempts 1 and 2 fail with a retryable error and attempt 3 succeeds, the call makes three
  requests with exactly two waits between them, of 2 and then 4 seconds, and returns the
  record; when the first outcome is the not-found outcome (an error whose message carries
  \<^verbatim>\<open>404\<close> or \<^verbatim>\<open>Not Found\<close> in the structured pipeline, the HTTP status 404 in the
  heuristic one), the call makes one request, waits zero times and returns nothing.
\<close>

theorem retry_backoff_sequence:
  "(\<forall>respond s e1 e2 sc u md.
      respond (requests s) = Raises e1 \<and> \<not> not_found_message e1 \<and>
      respond (requests s + 1) = Raises e2 \<and> \<not> not_found_message e2 \<and>
      respond (requests s + 2) = Returns sc
      \<longrightarrow> fst (scrape_recipe_se respond u md 1 s) = Some (raw_data_se u md sc) \<and>
          events (snd (scrape_recipe_se respond u md 1 s)) =
            events s @ [Request u, BackoffWait 2, Request u, BackoffWait 4, Request u])
   \<and> (\<forall>respond s e u md.
        respond (requests s) = Raises e \<and> not_found_message e
        \<longrightarrow> fst (scrape_recipe_se respond u md 1 s) = None \<and>
            events (snd (scrape_recipe_se respond u md 1 s)) = events s @ [Request u])
   \<and> (\<forall>respond s e1 e2 resp u.
        respond (requests s) = Raises e1 \<and> respond (requests s + 1) = Raises e2 \<and>
        respond (requests s + 2) = Returns resp \<and> status_code resp = 200
        \<longrightarrow> fst (scrape_recipe_lidia respond u 1 s) = extract_lidia u (content resp) \<and>
            events (snd (scrape_recipe_lidia respond u 1 s)) =
              events s @ [Request u, BackoffWait 2, Request u, BackoffWait 4, Request u])
   \<and> (\<forall>respond s resp u.
        respond (requests s) = Returns resp \<and> status_code resp = 404
        \<longrightarrow> fst (scrape_recipe_lidia respond u 1 s) = None \<and>
            events (snd (scrape_recipe_lidia respond u 1 s)) = events s @ [Request u])"
proof (intro conjI allI impI; (elim conjE)?)
  show "fst (scrape_recipe_se respond u md 1 s) = Some (raw_data_se u md sc)"
    if "respond (requests s) = Raises e1" "\<not> not_found_message e1"
      "respond (requests s + 1) = Raises e2" "\<not> not_found_message e2"
      "respond (requests s + 2) = Returns sc" for respond s e1 e2 sc u md
    unfolding scrape_se_third_time [OF that] by simp
  show "events (snd (scrape_recipe_se respond u md 1 s)) =
          events s @ [Request u, BackoffWait 2, Request u, BackoffWait 4, Request u]"
    if "respond (requests s) = Raises e1" "\<not> not_found_message e1"
      "respond (requests s + 1) = Raises e2" "\<not> not_found_message e2"
      "respond (requests s + 2) = Returns sc" for respond s e1 e2 sc u md
    unfolding scrape_se_third_time [OF that] by simp
  show "fst (scrape_recipe_se respond u md 1 s) = None"
    if "respond (requests s) = Raises e" "not_found_message e" for respond s e u md
    unfolding scrape_se_not_found [of respond s, OF that] by simp
  show "events (snd (scrape_recipe_se respond u md 1 s)) = events s @ [Request u]"
    if "respond (requests s) = Raises e" "not_found_message e" for respond s e u md
    unfolding scrape_se_not_found [of respond s, OF that] by simp
  show "fst (scrape_recipe_lidia respond u 1 s) = extract_lidia u (content resp)"
    if "respond (requests s) = Raises e1" "respond (requests s + 1) = Raises e2"
      "respond (requests s + 2) = Returns resp" "status_code resp = 200"
    for respond s e1 e2 resp u
    unfolding scrape_lidia_third_time [OF that] by simp
  show "events (snd (scrape_recipe_lidia respond u 1 s)) =
          events s @ [Request u, BackoffWait 2, Request u, BackoffWait 4, Request u]"
    if "respond (requests s) = Raises e1" "respond (requests s + 1) = Raises e2"
      "respond (requests s + 2) = Returns resp" "status_code resp = 200"
    for respond s e1 e2 resp u
    unfolding scrape_lidia_third_time [OF that] by simp
  show "fst (scrape_recipe_lidia respond u 1 s) = None"
    if "respond (requests s) = Returns resp" "status_code resp = 404" for respond s resp u
    unfolding scrape_lidia_returns [of respond s, OF that(1)] using that(2) by simp
  show "events (snd (scrape_recipe_lidia respond u 1 s)) = events s @ [Request u]"
    if "respond (requests s) = Returns resp" "status_code resp = 404" for respond s resp u
    unfolding scrape_lidia_returns [of respond s, OF that(1)] by simp
qed

theorem retry_backoff_sequence_witness:
  "events (snd (scrape_recipe_se
      (\<lambda>n. if n < 2 then Raises timeout_error else Returns sample_scraper) ''u3'' no_metadata 1
      initial)) = [Request ''u3'', BackoffWait 2, Request ''u3'', BackoffWait 4, Request ''u3'']
   \<and> events (snd (scrape_recipe_se (\<lambda>n. Raises http_404_error) ''u2'' no_metadata 1 initial)) =
       [Request ''u2'']
   \<and> events (snd (scrape_recipe_lidia
        (\<lambda>n. if n < 2 then Raises timeout_error else Returns (status_only 200)) ''u3'' 1
        initial)) = [Request ''u3'', BackoffWait 2, Request ''u3'', BackoffWait 4, Request ''u3'']
   \<and> events (snd (scrape_recipe_lidia (\<lambda>n. Returns (status_only 404)) ''u2'' 1 initial)) =
       [Request ''u2'']"
proof (intro conjI)
  note t = retry_backoff_sequence
  have init: "requests initial = 0" "events initial = []"
    by (simp_all add: initial_def)
  show "events (snd (scrape_recipe_se
      (\<lambda>n. if n < 2 then Raises timeout_error else Returns sample_scraper) ''u3'' no_metadata 1
      initial)) = [Request ''u3'', BackoffWait 2, Request ''u3'', BackoffWait 4, Request ''u3'']"
    using t [THEN conjunct1, rule_format,
        of "\<lambda>n. if n < 2 then Raises timeout_error else Returns sample_scraper" initial
           timeout_error timeout_error sample_scraper "''u3''" no_metadata]
    by (simp add: init not_found_message_samples)
  show "events (snd (scrape_recipe_se (\<lambda>n. Raises http_404_error) ''u2'' no_metadata 1 initial)) =
       [Request ''u2'']"
    using t [THEN conjunct2, THEN conjunct1, rule_format,
        of "\<lambda>n. Raises http_404_error" initial http_404_error "''u2''" no_metadata]
    by (simp add: init not_found_message_samples)
  show "events (snd (scrape_recipe_lidia
        (\<lambda>n. if n < 2 then Raises timeout_error else Returns (status_only 200)) ''u3'' 1
        initial)) = [Request ''u3'', BackoffWait 2, Request ''u3'', BackoffWait 4, Request ''u3'']"
    using t [THEN conjunct2, THEN conjunct2, THEN conjunct1, rule_format,
        of "\<lambda>n. if n < 2 then Raises timeout_error else Returns (status_only 200)" initial
           timeout_error timeout_error "status_only 200" "''u3''"]
    by (simp add: init status_only_def)
  show "events (snd (scrape_recipe_lidia (\<lambda>n. Returns (status_only 404)) ''u2'' 1 initial)) =
       [Request ''u2'']"
    using t [THEN conjunct2, THEN conjunct2, THEN conjunct2, rule_format,
        of "\<lambda>n. Returns (status_only 404)" initial "status_only 404" "''u2''"]
    by (simp add: init status_only_def)
qed

lemma scrape_se_all_fail:
  assumes "respond (requests s) = Raises e1" "\<not> not_found_message e1"
    and "respond (requests s + 1) = Raises e2" "\<not> not_found_message e2"
    and "respond (requests s + 2) = Raises e3" "\<not> not_found_message e3"
  shows "scrape_recipe_se respond u md 1 s =
      (None,
       leave (leave (leave (request u (enter (backoff_sleep 4 (request u (enter
         (backoff_sleep 2 (request u (enter s)))))))))))"
  using assms
  by (simp add: scrape_recipe_se.simps not_found_message_def MAX_RETRIES_def RETRY_BACKOFF_def
      Let_def)

lemma scrape_lidia_all_fail:
  assumes "respond (requests s) = Raises e1" "respond (requests s + 1) = Raises e2"
    and "respond (requests s + 2) = Raises e3"
  shows "scrape_recipe_lidia respond u 1 s =
      (None,
       leave (leave (leave (request u (enter (backoff_sleep 4 (request u (enter
         (backoff_sleep 2 (request u (enter s)))))))))))"
  using assms
  by (simp add: scrape_recipe_lidia.simps MAX_RETRIES_def RETRY_BACKOFF_def Let_def)

lemma not_found_message_server_error: "\<not> not_found_message server_error"
  by (simp add: not_found_message_def server_error_def)

subsection \<open>Which failures are retried\<close>

text \<open>
  Claim C2 says that an item fetch answered with a non-2xx status other than 404 (500, 503)
  is retried up to three attempts. In the heuristic pipeline it is not: a response with
  status 500 ends the call after one request.
\<close>

theorem server_error_not_retried_counterexample:
  "scrape_recipe_lidia (\<lambda>n. Returns (status_only 500)) ''u'' 1 initial =
     (None, \<lparr>requests = 1, events = [Request ''u''], depth = 0, peak = 1\<rparr>)"
  by (simp add: scrape_lidia_returns status_only_def initial_def leave_def request_def enter_def)

text \<open>
  Claim C2, amended. In the heuristic pipeline every response whose status is not 200
  (404, 500 and 503 alike) fails the item at once, with one request and no wait, at any
  attempt; what is retried up to the cap of three attempts is a raised exception. The
  structured pipeline never sees a status: it retries a raised error up to the cap of three
  attempts when the error's message carries neither \<^verbatim>\<open>404\<close> nor \<^verbatim>\<open>Not Found\<close>.
\<close>

theorem only_raised_errors_are_retried:
  "(\<forall>respond s resp u attempt.
      respond (requests s) = Returns resp \<and> status_code resp \<noteq> 200
      \<longrightarrow> fst (scrape_recipe_lidia respond u attempt s) = None \<and>
          events (snd (scrape_recipe_lidia respond u attempt s)) = events s @ [Request u])
   \<and> (\<forall>respond s e1 e2 e3 u.
        respond (requests s) = Raises e1 \<and> respond (requests s + 1) = Raises e2 \<and>
        respond (requests s + 2) = Raises e3
        \<longrightarrow> fst (scrape_recipe_lidia respond u 1 s) = None \<and>
            events (snd (scrape_recipe_lidia respond u 1 s)) =
              events s @ [Request u, BackoffWait 2, Request u, BackoffWait 4, Request u])
   \<and> (\<forall>respond s e1 e2 e3 u md.
        respond (requests s) = Raises e1 \<and> \<not> not_found_message e1 \<and>
        respond (requests s + 1) = Raises e2 \<and> \<not> not_found_message e2 \<and>
        respond (requests s + 2) = Raises e3 \<and> \<not> not_found_message e3
        \<longrightarrow> fst (scrape_recipe_se respond u md 1 s) = None \<and>
            events (snd (scrape_recipe_se respond u md 1 s)) =
              events s @ [Request u, BackoffWait 2, Request u, BackoffWait 4, Request u])"
proof (intro conjI allI impI; (elim conjE)?)
  show "fst (scrape_recipe_lidia respond u attempt s) = None"
    if "respond (requests s) = Returns resp" "status_code resp \<noteq> 200"
    for respond s resp u attempt
    unfolding scrape_lidia_returns [of respond s, OF that(1)] using that(2) by simp
  show "events (snd (scrape_recipe_lidia respond u attempt s)) = events s @ [Request u]"
    if "respond (requests s) = Returns resp" "status_code resp \<noteq> 200"
    for respond s resp u attempt
    unfolding scrape_lidia_returns [of respond s, OF that(1)] by simp
  show "fst (scrape_recipe_lidia respond u 1 s) = None"
    if "respond (requests s) = Raises e1" "respond (requests s + 1) = Raises e2"
      "respond (requests s + 2) = Raises e3" for respond s e1 e2 e3 u
    unfolding scrape_lidia_all_fail [OF that] by simp
  show "events (snd (scrape_recipe_lidia respond u 1 s)) =
          events s @ [Request u, BackoffWait 2, Request u, BackoffWait 4, Request u]"
    if "respond (requests s) = Raises e1" "respond (requests s + 1) = Raises e2"
      "respond (requests s + 2) = Raises e3" for respond s e1 e2 e3 u
    unfolding scrape_lidia_all_fail [OF that] by simp
  show "fst (scrape_recipe_se respond u md 1 s) = None"
    if "respond (requests s) = Raises e1" "\<not> not_found_message e1"
      "respond (requests s + 1) = Raises e2" "\<not> not_found_message e2"
      "respond (requests s + 2) = Raises e3" "\<not> not_found_message e3"
    for respond s e1 e2 e3 u md
    unfolding scrape_se_all_fail [OF that] by simp
  show "events (snd (scrape_recipe_se respond u md 1 s)) =
          events s @ [Request u, BackoffWait 2, Request u, BackoffWait 4, Request u]"
    if "respond (requests s) = Raises e1" "\<not> not_found_message e1"
      "respond (requests s + 1) = Raises e2" "\<not> not_found_message e2"
      "respond (requests s + 2) = Raises e3" "\<not> not_found_message e3"
    for respond s e1 e2 e3 u md
    unfolding scrape_se_all_fail [OF that] by simp
qed

theorem only_raised_errors_are_retried_witness:
  "events (snd (scrape_recipe_lidia (\<lambda>n. Returns (status_only 503)) ''u'' 1 initial)) =
     [Request ''u'']
   \<and> events (snd (scrape_recipe_lidia (\<lambda>n. Raises timeout_error) ''u'' 1 initial)) =
       [Request ''u'', BackoffWait 2, Request ''u'', BackoffWait 4, Request ''u'']
   \<and> events (snd (scrape_recipe_se (\<lambda>n. Raises server_error) ''u'' no_metadata 1 initial)) =
       [Request ''u'', BackoffWait 2, Request ''u'', BackoffWait 4, Request ''u'']"
proof (intro conjI)
  note t = only_raised_errors_are_retried
  have init: "requests initial = 0" "events initial = []"
    by (simp_all add: initial_def)
  show "events (snd (scrape_recipe_lidia (\<lambda>n. Returns (status_only 503)) ''u'' 1 initial)) =
     [Request ''u'']"
    using t [THEN conjunct1, rule_format,
        of "\<lambda>n. Returns (status_only 503)" initial "status_only 503" "''u''" 1]
    by (simp add: init status_only_def)
  show "events (snd (scrape_recipe_lidia (\<lambda>n. Raises timeout_error) ''u'' 1 initial)) =
       [Request ''u'', BackoffWait 2, Request ''u'', BackoffWait 4, Request ''u'']"
    using t [THEN conjunct2, THEN conjunct1, rule_format,
        of "\<lambda>n. Raises timeout_error" initial timeout_error timeout_error timeout_error "''u''"]
    by (simp add: init)
  show "events (snd (scrape_recipe_se (\<lambda>n. Raises server_error) ''u'' no_metadata 1 initial)) =
       [Request ''u'', BackoffWait 2, Request ''u'', BackoffWait 4, Request ''u'']"
    using t [THEN conjunct2, THEN conjunct2, rule_format,
        of "\<lambda>n. Raises server_error" initial server_error server_error server_error "''u''"
           no_metadata]
    by (simp add: init not_found_message_server_error)
qed

subsection \<open>Permanence by substring\<close>

text \<open>
  Claim C10. In the structured pipeline an exception of any type whose message contains
  \<^verbatim>\<open>404\<close> or \<^verbatim>\<open>Not Found\<close> fails the item at once, at any attempt: nothing is
  returned, one request is made and no wait follows. The witness is a read timeout on
  port 4040.
\<close>

theorem not_found_substring_is_permanent:
  "respond (requests s) = Raises \<lparr>error_type = ty, error_msg = msg\<rparr> \<Longrightarrow>
   py_in ''404'' msg \<or> py_in ''Not Found'' msg \<Longrightarrow>
   fst (scrape_recipe_se respond u md attempt s) = None \<and>
   events (snd (scrape_recipe_se respond u md attempt s)) = events s @ [Request u] \<and>
   requests (snd (scrape_recipe_se respond u md attempt s)) = requests s + 1"
proof -
  assume r: "respond (requests s) = Raises \<lparr>error_type = ty, error_msg = msg\<rparr>"
    and m: "py_in ''404'' msg \<or> py_in ''Not Found'' msg"
  from m have "not_found_message \<lparr>error_type = ty, error_msg = msg\<rparr>"
    by (simp add: not_found_message_def)
  then have "scrape_recipe_se respond u md attempt s = (None, leave (request u (enter s)))"
    using r by (rule scrape_se_not_found [of respond s, rotated])
  then show ?thesis by simp
qed

theorem not_found_substring_is_permanent_witness:
  "py_in ''404'' (error_msg port_4040_timeout) \<and>
   fst (scrape_recipe_se (\<lambda>n. Raises port_4040_timeout) ''u'' no_metadata 1 initial) = None \<and>
   events (snd (scrape_recipe_se (\<lambda>n. Raises port_4040_timeout) ''u'' no_metadata 1 initial)) =
     [Request ''u'']"
proof -
  have m: "py_in ''404'' ''HTTPSConnectionPool(host=seriouseats.com, port=4040): Read timed out.''"
    by simp
  have r: "(\<lambda>n. Raises port_4040_timeout) (requests initial) =
      Raises \<lparr>error_type = ''ReadTimeout'',
        error_msg = ''HTTPSConnectionPool(host=seriouseats.com, port=4040): Read timed out.''\<rparr>"
    by (simp add: port_4040_timeout_def)
  show ?thesis
    using not_found_substring_is_permanent [OF r disjI1 [OF m], of "''u''" no_metadata 1] m
    by (simp add: port_4040_timeout_def initial_def)
qed

subsection \<open>Stack depth of the retry logic\<close>

lemma frames_used_once: "frames_used s (leave (request u (enter s)))"
  by (simp add: frames_used_def)

lemma frames_used_nested:
  "frames_used (backoff_sleep n (request u (enter s))) s' \<Longrightarrow> frames_used s (leave s')"
  by (auto simp: frames_used_def max_def)

lemma retry_count_step:
  "(r'::nat) - Suc r \<le> max 1 (m + 1 - (a + 1)) \<Longrightarrow> a < m \<Longrightarrow> r' - r \<le> max 1 (m + 1 - a)"
  by (simp add: max_def split: if_splits) arith

lemma scrape_se_frames:
  "frames_used s (snd (scrape_recipe_se respond u md attempt s)) \<and>
   requests (snd (scrape_recipe_se respond u md attempt s)) - requests s
     \<le> max 1 (MAX_RETRIES + 1 - attempt)"
proof (induction respond u md attempt s rule: scrape_recipe_se.induct)
  case (1 respond u md attempt s)
  show ?case
  proof (cases "respond (requests s)")
    case (Returns sc)
    show ?thesis
      unfolding scrape_se_returns [of respond s, OF Returns]
      by (simp add: frames_used_once)
  next
    case (Raises e)
    consider (nf) "not_found_message e"
      | (retry) "\<not> not_found_message e" "attempt < MAX_RETRIES"
      | (exhausted) "\<not> not_found_message e" "\<not> attempt < MAX_RETRIES"
      by blast
    then show ?thesis
    proof cases
      case nf
      show ?thesis
        unfolding scrape_se_not_found [of respond s, OF Raises nf]
        by (simp add: frames_used_once)
    next
      case exhausted
      show ?thesis
        unfolding scrape_se_exhausted [of respond s, OF Raises exhausted]
        by (simp add: frames_used_once)
    next
      case retry
      let ?s2 = "backoff_sleep (RETRY_BACKOFF ^ attempt) (request u (enter s))"
      let ?r = "scrape_recipe_se respond u md (attempt + 1) ?s2"
      have ih: "frames_used ?s2 (snd ?r) \<and>
          requests (snd ?r) - requests ?s2 \<le> max 1 (MAX_RETRIES + 1 - (attempt + 1))"
        using "1.IH" [OF refl Raises _ retry(2) refl] retry(1)
        by (simp add: not_found_message_def)
      have eq: "scrape_recipe_se respond u md attempt s = (fst ?r, leave (snd ?r))"
        using scrape_se_retry [of respond s, OF Raises retry] by (simp add: Let_def)
      have "frames_used s (leave (snd ?r))"
        using ih frames_used_nested [of "RETRY_BACKOFF ^ attempt" u s "snd ?r"] by simp
      moreover have "requests (leave (snd ?r)) - requests s \<le> max 1 (MAX_RETRIES + 1 - attempt)"
        using ih retry(2)
          retry_count_step [of "requests (snd ?r)" "requests s" MAX_RETRIES attempt]
        by simp
      ultimately show ?thesis unfolding eq by simp
    qed
  qed
qed

lemma scrape_lidia_frames:
  "frames_used s (snd (scrape_recipe_lidia respond u attempt s)) \<and>
   requests (snd (scrape_recipe_lidia respond u attempt s)) - requests s
     \<le> max 1 (MAX_RETRIES + 1 - attempt)"
proof (induction respond u attempt s rule: scrape_recipe_lidia.induct)
  case (1 respond u attempt s)
  show ?case
  proof (cases "respond (requests s)")
    case (Returns resp)
    show ?thesis
      unfolding scrape_lidia_returns [of respond s, OF Returns]
      by (simp add: frames_used_once)
  next
    case (Raises e)
    show ?thesis
    proof (cases "attempt < MAX_RETRIES")
      case False
      show ?thesis
        unfolding scrape_lidia_exhausted [of respond s, OF Raises False]
        by (simp add: frames_used_once)
    next
      case True
      let ?s2 = "backoff_sleep (RETRY_BACKOFF ^ attempt) (request u (enter s))"
      let ?r = "scrape_recipe_lidia respond u (attempt + 1) ?s2"
      have ih: "frames_used ?s2 (snd ?r) \<and>
          requests (snd ?r) - requests ?s2 \<le> max 1 (MAX_RETRIES + 1 - (attempt + 1))"
        using "1.IH" [OF refl Raises True refl] by simp
      have eq: "scrape_recipe_lidia respond u attempt s = (fst ?r, leave (snd ?r))"
        using scrape_lidia_retry [of respond s, OF Raises True] by (simp add: Let_def)
      have "frames_used s (leave (snd ?r))"
        using ih frames_used_nested [of "RETRY_BACKOFF ^ attempt" u s "snd ?r"] by simp
      moreover have "requests (leave (snd ?r)) - requests s \<le> max 1 (MAX_RETRIES + 1 - attempt)"
        using ih True
          retry_count_step [of "requests (snd ?r)" "requests s" MAX_RETRIES attempt]
        by simp
      ultimately show ?thesis unfolding eq by simp
    qed
  qed
qed

text \<open>
  Claim C3 says that the retry logic is a loop whose stack depth does not grow with the
  number of attempts. Both scripts retry by \<^verbatim>\<open>return scrape_recipe(url, ..., attempt + 1)\<close>
  from inside the \<^verbatim>\<open>except\<close> branch: a fetch that succeeds at once uses one frame, one
  that succeeds on the third attempt uses three.
\<close>

theorem stack_depth_grows_counterexample:
  "peak (snd (scrape_recipe_se (\<lambda>n. Returns sample_scraper) ''u'' no_metadata 1 initial)) = 1 \<and>
   peak (snd (scrape_recipe_se
     (\<lambda>n. if n < 2 then Raises timeout_error else Returns sample_scraper) ''u'' no_metadata 1
     initial)) = 3"
proof
  show "peak (snd (scrape_recipe_se (\<lambda>n. Returns sample_scraper) ''u'' no_metadata 1 initial)) = 1"
    by (simp add: scrape_se_returns initial_def)
  have "scrape_recipe_se
     (\<lambda>n. if n < 2 then Raises timeout_error else Returns sample_scraper) ''u'' no_metadata 1
     initial =
      (Some (raw_data_se ''u'' no_metadata sample_scraper),
       leave (leave (leave (request ''u'' (enter (backoff_sleep 4 (request ''u'' (enter
         (backoff_sleep 2 (request ''u'' (enter initial)))))))))))"
    by (rule scrape_se_third_time [where ?e1.0 = timeout_error and ?e2.0 = timeout_error])
      (simp_all add: initial_def not_found_message_samples)
  then show "peak (snd (scrape_recipe_se
     (\<lambda>n. if n < 2 then Raises timeout_error else Returns sample_scraper) ''u'' no_metadata 1
     initial)) = 3"
    by (simp add: initial_def)
qed

text \<open>
  Claim C3, amended. The retry mechanism is self-recursion on the attempt counter, bounded
  by \<^verbatim>\<open>MAX_RETRIES\<close>: every attempt after the first is a nested call, so a call of
  \<^verbatim>\<open>scrape_recipe\<close> raises the stack by exactly as many frames as it makes attempts, at
  least one and at most \<^verbatim>\<open>MAX_RETRIES + 1 - attempt\<close> (three for a call that starts at
  attempt 1), and returns with the stack as it found it.
\<close>

theorem retry_is_bounded_recursion:
  "(let s' = snd (scrape_recipe_se respond u md attempt s);
        attempts = requests s' - requests s
    in depth s' = depth s \<and> 1 \<le> attempts \<and> attempts \<le> max 1 (MAX_RETRIES + 1 - attempt) \<and>
       peak s' = max (peak s) (depth s + attempts))
   \<and> (let s' = snd (scrape_recipe_lidia respond' u attempt s);
          attempts = requests s' - requests s
      in depth s' = depth s \<and> 1 \<le> attempts \<and> attempts \<le> max 1 (MAX_RETRIES + 1 - attempt) \<and>
         peak s' = max (peak s) (depth s + attempts))"
  using scrape_se_frames [of s respond u md attempt] scrape_lidia_frames [of s respond' u attempt]
  by (simp add: frames_used_def Let_def) arith

theorem retry_is_bounded_recursion_witness:
  "peak (snd (scrape_recipe_se (\<lambda>n. Raises timeout_error) ''u'' no_metadata 1 initial)) =
     requests (snd (scrape_recipe_se (\<lambda>n. Raises timeout_error) ''u'' no_metadata 1 initial)) \<and>
   requests (snd (scrape_recipe_se (\<lambda>n. Raises timeout_error) ''u'' no_metadata 1 initial)) \<le> 3 \<and>
   peak (snd (scrape_recipe_lidia (\<lambda>n. Raises timeout_error) ''u'' 1 initial)) =
     requests (snd (scrape_recipe_lidia (\<lambda>n. Raises timeout_error) ''u'' 1 initial)) \<and>
   requests (snd (scrape_recipe_lidia (\<lambda>n. Raises timeout_error) ''u'' 1 initial)) \<le> 3"
  using retry_is_bounded_recursion
    [of "\<lambda>n. Raises timeout_error" "''u''" no_metadata 1 initial "\<lambda>n. Raises timeout_error"]
  by (simp add: Let_def initial_def MAX_RETRIES_def)

subsection \<open>Validator\<close>


lemma validate_short_recipe_lidia:
  "validate_recipe_lidia short_recipe = (False, [''No ingredients'', ''Instructions too short''])"
  by (simp add: validate_recipe_lidia_def short_recipe_def json_loads_def json_dumps_def)






subsection \<open>Persisting validated records\<close>









subsection \<open>Exit status\<close>










subsection \<open>Instruction paragraphs\<close>

lemma instruction_parts_filter:
  "instruction_parts acc ps = acc @ filter kept (map strip ps)"
proof (induction ps arbitrary: acc)
  case Nil
  show ?case by simp
next
  case (Cons p ps)
  have "strip p = [] \<Longrightarrow> \<not> kept (strip p)"
    by (simp add: kept_def)
  then show ?case
    by (auto simp: Cons.IH Let_def kept_def has_boilerplate_def)
qed

lemma lower_sample: "lower ''Stir the sauce well.'' = ''stir the sauce well.''"
  by code_simp

lemma strip_sample: "strip ''Stir the sauce well.'' = ''Stir the sauce well.''"
  by code_simp

text \<open>
  Claim C8 says that a clean paragraph of exactly 20 characters is kept. The source tests
  \<^verbatim>\<open>len(text) > 20\<close>: such a paragraph is dropped.
\<close>

theorem twenty_characters_dropped_counterexample:
  "length ''Stir the sauce well.'' = 20 \<and> \<not> has_boilerplate ''Stir the sauce well.'' \<and>
   instructions_text (Some [''Stir the sauce well.'']) = []"
  by (simp add: instructions_text_def strip_sample has_boilerplate_def lower_sample
      skip_patterns_def)

text \<open>
  Claim C8, amended. A paragraph of the content container after the Directions heading is
  kept if and only if its stripped text is longer than 20 characters and contains no
  boilerplate marker (compared in lower case); a clean paragraph of exactly 20 characters
  is dropped. The surviving texts are joined with a blank line between them, in their
  original order; a page without that container gives the empty text.
\<close>

theorem instructions_keep_long_clean_paragraphs:
  "instruction_parts [] ps = filter kept (map strip ps) \<and>
   instructions_text (Some ps) = join ''\<newline>\<newline>'' (filter kept (map strip ps)) \<and>
   instructions_text None = []"
  by (simp add: instruction_parts_filter instructions_text_def)

theorem instructions_keep_long_clean_paragraphs_witness:
  "instructions_text (Some sample_paragraphs) =
     ''Bring a large pot of salted water to a boil.\<newline>\<newline>Drain the pasta and toss it with the sauce.''"
proof -
  have e: "join ''\<newline>\<newline>'' (filter kept (map strip sample_paragraphs)) =
     ''Bring a large pot of salted water to a boil.\<newline>\<newline>Drain the pasta and toss it with the sauce.''"
    by code_simp
  have "instructions_text (Some sample_paragraphs) =
      join ''\<newline>\<newline>'' (filter kept (map strip sample_paragraphs))"
    using instructions_keep_long_clean_paragraphs [of sample_paragraphs] by blast
  then show ?thesis by (simp only: e)
qed

subsection \<open>Pagination\<close>



lemma extract_pages_no_links:
  "page_num \<le> max_pages \<Longrightarrow> respond (requests s) = Returns anchors \<Longrightarrow>
   recipe_links_of urljoin chef_url anchors = [] \<Longrightarrow>
   extract_pages urljoin respond chef_url max_pages page_num all_recipe_urls s =
     (all_recipe_urls, request (page_url chef_url page_num) s)"
  by (subst extract_pages.simps) (simp add: Let_def recipe_links_of_def)

lemma extract_pages_no_next:
  "page_num \<le> max_pages \<Longrightarrow> respond (requests s) = Returns anchors \<Longrightarrow>
   recipe_links_of urljoin chef_url anchors \<noteq> [] \<Longrightarrow> \<not> next_page anchors \<Longrightarrow>
   extract_pages urljoin respond chef_url max_pages page_num all_recipe_urls s =
     (all_recipe_urls @ recipe_links_of urljoin chef_url anchors,
      request (page_url chef_url page_num) s)"
  by (subst extract_pages.simps) (simp add: Let_def recipe_links_of_def)

lemma extract_pages_advance:
  "page_num \<le> max_pages \<Longrightarrow> respond (requests s) = Returns anchors \<Longrightarrow>
   recipe_links_of urljoin chef_url anchors \<noteq> [] \<Longrightarrow> next_page anchors \<Longrightarrow>
   extract_pages urljoin respond chef_url max_pages page_num all_recipe_urls s =
     extract_pages urljoin respond chef_url max_pages (page_num + 1)
       (all_recipe_urls @ recipe_links_of urljoin chef_url anchors)
       (rate_limit_sleep 2 (request (page_url chef_url page_num) s))"
  by (subst extract_pages.simps) (simp add: Let_def recipe_links_of_def)

lemma extract_pages_walk:
  assumes "\<forall>j<m. leads_on urljoin chef_url (respond (requests s + j))"
    and "respond (requests s + m) = Returns anchors"
    and "recipe_links_of urljoin chef_url anchors = []"
    and "page_num + m \<le> max_pages"
  shows "requests (snd (extract_pages urljoin respond chef_url max_pages page_num
            all_recipe_urls s)) = requests s + m + 1 \<and>
         last (events (snd (extract_pages urljoin respond chef_url max_pages page_num
            all_recipe_urls s))) = Request (page_url chef_url (page_num + m))"
  using assms
proof (induction m arbitrary: page_num all_recipe_urls s)
  case 0
  then show ?case
    using extract_pages_no_links [of page_num max_pages respond s anchors urljoin chef_url
        all_recipe_urls]
    by simp
next
  case (Suc m)
  from Suc.prems(1) have "leads_on urljoin chef_url (respond (requests s))"
    by (metis add.right_neutral zero_less_Suc)
  then obtain a where a: "respond (requests s) = Returns a"
    "recipe_links_of urljoin chef_url a \<noteq> []" "next_page a"
    by (auto simp: leads_on_def split: outcome.splits)
  let ?s' = "rate_limit_sleep 2 (request (page_url chef_url page_num) s)"
  have step: "extract_pages urljoin respond chef_url max_pages page_num all_recipe_urls s =
      extract_pages urljoin respond chef_url max_pages (page_num + 1)
        (all_recipe_urls @ recipe_links_of urljoin chef_url a) ?s'"
    using Suc.prems(4) a by (intro extract_pages_advance) simp_all
  have "\<forall>j<m. leads_on urljoin chef_url (respond (requests ?s' + j))"
    using Suc.prems(1) by (auto simp: less_Suc_eq_0_disj)
  moreover have "respond (requests ?s' + m) = Returns anchors"
    using Suc.prems(2) by simp
  moreover have "page_num + 1 + m \<le> max_pages"
    using Suc.prems(4) by simp
  ultimately show ?case
    unfolding step
    using Suc.IH [of ?s' "page_num + 1" "all_recipe_urls @ recipe_links_of urljoin chef_url a"]
      Suc.prems(3)
    by simp
qed

lemma sample_pages:
  "recipe_links_of absolute chef_page [] = []"
  "recipe_links_of absolute chef_page [recipe_anchor] = [''https://www.foodandwine.com/recipes/pizza'']"
  "recipe_links_of absolute chef_page [recipe_anchor, next_anchor] =
     [''https://www.foodandwine.com/recipes/pizza'']"
  "\<not> next_page [recipe_anchor]"
  "next_page [recipe_anchor, next_anchor]"
  by code_simp+

text \<open>
  Claim C4. Wherever the walk stands, a page that yields no matching recipe link ends it
  at that page: the URLs collected so far are returned and no further request or sleep
  follows; so a walk whose first \<open>m\<close> pages lead on and whose next page yields nothing
  makes exactly \<open>m + 1\<close> requests, the last one for page \<open>m + 1\<close>. And when page 1 yields
  links but no next-page affordance (no \<^verbatim>\<open>rel="next"\<close> link, no link text \<^verbatim>\<open>Next\<close>, no
  class containing \<^verbatim>\<open>next\<close>), the walk returns the links of page 1 after that single
  request.
\<close>

theorem pagination_stops:
  "(\<forall>page_num all_recipe_urls s anchors.
      page_num \<le> max_pages \<and> respond (requests s) = Returns anchors \<and>
      recipe_links_of urljoin chef_url anchors = []
      \<longrightarrow> fst (extract_pages urljoin respond chef_url max_pages page_num all_recipe_urls s) =
            all_recipe_urls \<and>
          events (snd (extract_pages urljoin respond chef_url max_pages page_num all_recipe_urls s)) =
            events s @ [Request (page_url chef_url page_num)])
   \<and> (\<forall>m s anchors.
        m < max_pages \<and> (\<forall>j<m. leads_on urljoin chef_url (respond (requests s + j))) \<and>
        respond (requests s + m) = Returns anchors \<and>
        recipe_links_of urljoin chef_url anchors = []
        \<longrightarrow> requests (snd (extract_recipe_urls urljoin respond chef_url max_pages s)) =
              requests s + m + 1 \<and>
            last (events (snd (extract_recipe_urls urljoin respond chef_url max_pages s))) =
              Request (page_url chef_url (m + 1)))
   \<and> (\<forall>s anchors.
        1 \<le> max_pages \<and> respond (requests s) = Returns anchors \<and>
        recipe_links_of urljoin chef_url anchors \<noteq> [] \<and> \<not> next_page anchors
        \<longrightarrow> fst (extract_recipe_urls urljoin respond chef_url max_pages s) =
              dedup (recipe_links_of urljoin chef_url anchors) \<and>
            events (snd (extract_recipe_urls urljoin respond chef_url max_pages s)) =
              events s @ [Request chef_url])"
proof (intro conjI allI impI; (elim conjE)?)
  show "fst (extract_pages urljoin respond chef_url max_pages page_num all_recipe_urls s) =
      all_recipe_urls"
    if "page_num \<le> max_pages" "respond (requests s) = Returns anchors"
      "recipe_links_of urljoin chef_url anchors = []" for page_num all_recipe_urls s anchors
    unfolding extract_pages_no_links [of page_num max_pages respond s, OF that] by simp
  show "events (snd (extract_pages urljoin respond chef_url max_pages page_num all_recipe_urls s)) =
      events s @ [Request (page_url chef_url page_num)]"
    if "page_num \<le> max_pages" "respond (requests s) = Returns anchors"
      "recipe_links_of urljoin chef_url anchors = []" for page_num all_recipe_urls s anchors
    unfolding extract_pages_no_links [of page_num max_pages respond s, OF that] by simp
  show "requests (snd (extract_recipe_urls urljoin respond chef_url max_pages s)) =
      requests s + m + 1"
    if "m < max_pages" "\<forall>j<m. leads_on urljoin chef_url (respond (requests s + j))"
      "respond (requests s + m) = Returns anchors"
      "recipe_links_of urljoin chef_url anchors = []" for m s anchors
    using extract_pages_walk [of m urljoin chef_url respond s anchors 1 max_pages "[]"] that
    by (simp add: extract_recipe_urls_def Let_def)
  show "last (events (snd (extract_recipe_urls urljoin respond chef_url max_pages s))) =
      Request (page_url chef_url (m + 1))"
    if "m < max_pages" "\<forall>j<m. leads_on urljoin chef_url (respond (requests s + j))"
      "respond (requests s + m) = Returns anchors"
      "recipe_links_of urljoin chef_url anchors = []" for m s anchors
    using extract_pages_walk [of m urljoin chef_url respond s anchors 1 max_pages "[]"] that
    by (simp add: extract_recipe_urls_def Let_def)
  show "fst (extract_recipe_urls urljoin respond chef_url max_pages s) =
      dedup (recipe_links_of urljoin chef_url anchors)"
    if "1 \<le> max_pages" "respond (requests s) = Returns anchors"
      "recipe_links_of urljoin chef_url anchors \<noteq> []" "\<not> next_page anchors" for s anchors
    using extract_pages_no_next [of 1 max_pages respond s, OF that]
    by (simp add: extract_recipe_urls_def Let_def)
  show "events (snd (extract_recipe_urls urljoin respond chef_url max_pages s)) =
      events s @ [Request chef_url]"
    if "1 \<le> max_pages" "respond (requests s) = Returns anchors"
      "recipe_links_of urljoin chef_url anchors \<noteq> []" "\<not> next_page anchors" for s anchors
    using extract_pages_no_next [of 1 max_pages respond s, OF that]
    by (simp add: extract_recipe_urls_def Let_def page_url_def)
qed

theorem pagination_stops_witness:
  "events (snd (extract_pages absolute (\<lambda>n. Returns []) chef_page 10 1 [] initial)) =
     [Request (page_url chef_page 1)]
   \<and> requests (snd (extract_recipe_urls absolute
        (\<lambda>n. if n = 0 then Returns [recipe_anchor, next_anchor] else Returns []) chef_page 10
        initial)) = 2
   \<and> fst (extract_recipe_urls absolute (\<lambda>n. Returns [recipe_anchor]) chef_page 10 initial) =
       [''https://www.foodandwine.com/recipes/pizza'']
   \<and> events (snd (extract_recipe_urls absolute (\<lambda>n. Returns [recipe_anchor]) chef_page 10 initial)) =
       [Request chef_page]"
proof (intro conjI)
  have init: "requests initial = 0" "events initial = []"
    by (simp_all add: initial_def)
  have dd: "dedup [''https://www.foodandwine.com/recipes/pizza''] =
      [''https://www.foodandwine.com/recipes/pizza'']"
    by (simp add: dedup_def)
  show "events (snd (extract_pages absolute (\<lambda>n. Returns []) chef_page 10 1 [] initial)) =
     [Request (page_url chef_page 1)]"
    using pagination_stops [of 10 "\<lambda>n. Returns []" absolute chef_page, THEN conjunct1,
        THEN spec, of 1, THEN spec, of "[]", THEN spec, of initial, THEN spec, of "[]"]
    by (simp add: init sample_pages)
  show "requests (snd (extract_recipe_urls absolute
        (\<lambda>n. if n = 0 then Returns [recipe_anchor, next_anchor] else Returns []) chef_page 10
        initial)) = 2"
    using pagination_stops
      [of 10 "\<lambda>n. if n = 0 then Returns [recipe_anchor, next_anchor] else Returns []" absolute
          chef_page, THEN conjunct2, THEN conjunct1,
          THEN spec, of 1, THEN spec, of initial, THEN spec, of "[]"]
    by (simp add: init sample_pages leads_on_def)
  show "fst (extract_recipe_urls absolute (\<lambda>n. Returns [recipe_anchor]) chef_page 10 initial) =
       [''https://www.foodandwine.com/recipes/pizza'']"
    using pagination_stops [of 10 "\<lambda>n. Returns [recipe_anchor]" absolute chef_page,
        THEN conjunct2, THEN conjunct2, THEN spec, of initial, THEN spec, of "[recipe_anchor]"]
    by (simp add: init sample_pages dd)
  show "events (snd (extract_recipe_urls absolute (\<lambda>n. Returns [recipe_anchor]) chef_page 10 initial)) =
       [Request chef_page]"
    using pagination_stops [of 10 "\<lambda>n. Returns [recipe_anchor]" absolute chef_page,
        THEN conjunct2, THEN conjunct2, THEN spec, of initial, THEN spec, of "[recipe_anchor]"]
    by (simp add: init sample_pages)
qed

subsection \<open>Rate limiting\<close>















end
